theory Spec2Isabelle
  imports Complex_Main "HOL-Library.Sublist" "HOL-Library.Multiset"
begin

section \<open>JavaScript values used by the services\<close>

subsection \<open>Numbers\<close>

text \<open>
  A JavaScript number is modelled as a real, or one of the three special values that the
  services can produce: the two infinities (\<open>a.price || Infinity\<close>) and \<open>NaN\<close>
  (\<open>0 / 0\<close>). Rounding of IEEE doubles and the sign of zero are not modelled: arithmetic on
  proper numbers is exact.
\<close>

datatype jsnum = Num real | PInf | NInf | NaN

fun js_neg :: "jsnum \<Rightarrow> jsnum" where
  "js_neg (Num x) = Num (- x)"
| "js_neg PInf = NInf"
| "js_neg NInf = PInf"
| "js_neg NaN = NaN"

fun js_add :: "jsnum \<Rightarrow> jsnum \<Rightarrow> jsnum" where
  "js_add (Num x) (Num y) = Num (x + y)"
| "js_add NaN _ = NaN"
| "js_add _ NaN = NaN"
| "js_add PInf NInf = NaN"
| "js_add NInf PInf = NaN"
| "js_add PInf _ = PInf"
| "js_add _ PInf = PInf"
| "js_add NInf _ = NInf"
| "js_add _ NInf = NInf"

definition js_sub :: "jsnum \<Rightarrow> jsnum \<Rightarrow> jsnum" where
  "js_sub a b = js_add a (js_neg b)"

text \<open>The sign of a number: \<open>None\<close> for \<open>NaN\<close>, otherwise \<open>-1\<close>, \<open>0\<close> or \<open>1\<close>.\<close>

fun js_sign :: "jsnum \<Rightarrow> int option" where
  "js_sign (Num x) = Some (if x < 0 then - 1 else if x = 0 then 0 else 1)"
| "js_sign PInf = Some 1"
| "js_sign NInf = Some (- 1)"
| "js_sign NaN = None"

definition js_of_sign :: "int \<Rightarrow> jsnum" where
  "js_of_sign s = (if s < 0 then NInf else PInf)"

fun js_mul :: "jsnum \<Rightarrow> jsnum \<Rightarrow> jsnum" where
  "js_mul (Num x) (Num y) = Num (x * y)"
| "js_mul a b =
     (case (js_sign a, js_sign b) of
        (Some s, Some t) \<Rightarrow> (if s * t = 0 then NaN else js_of_sign (s * t))
      | _ \<Rightarrow> NaN)"

fun js_div :: "jsnum \<Rightarrow> jsnum \<Rightarrow> jsnum" where
  "js_div (Num x) (Num y) =
     (if y = 0 then (if x = 0 then NaN else if 0 < x then PInf else NInf) else Num (x / y))"
| "js_div (Num x) b = (if b = NaN then NaN else Num 0)"
| "js_div a (Num y) = (if a = NaN then NaN else if y < 0 then js_neg a else a)"
| "js_div a b = NaN"

text \<open>\<open>Math.min\<close> and \<open>Math.max\<close>: \<open>NaN\<close> as soon as one argument is \<open>NaN\<close>.\<close>

fun js_min :: "jsnum \<Rightarrow> jsnum \<Rightarrow> jsnum" where
  "js_min (Num x) (Num y) = Num (min x y)"
| "js_min NaN _ = NaN"
| "js_min _ NaN = NaN"
| "js_min NInf _ = NInf"
| "js_min _ NInf = NInf"
| "js_min PInf b = b"
| "js_min a PInf = a"

fun js_max :: "jsnum \<Rightarrow> jsnum \<Rightarrow> jsnum" where
  "js_max (Num x) (Num y) = Num (max x y)"
| "js_max NaN _ = NaN"
| "js_max _ NaN = NaN"
| "js_max PInf _ = PInf"
| "js_max _ PInf = PInf"
| "js_max NInf b = b"
| "js_max a NInf = a"


text \<open>A number within the closed interval from \<open>lo\<close> to \<open>hi\<close>; the special values are not.\<close>

fun js_between :: "real \<Rightarrow> real \<Rightarrow> jsnum \<Rightarrow> bool" where
  "js_between lo hi (Num x) = (lo \<le> x \<and> x \<le> hi)"
| "js_between lo hi _ = False"

text \<open>\<open>v > 0\<close>, which is false for \<open>NaN\<close>.\<close>

definition js_pos :: "jsnum \<Rightarrow> bool" where
  "js_pos a = (js_sign a = Some 1)"

text \<open>A numeric field that may be absent: \<open>undefined\<close> converts to \<open>NaN\<close> in arithmetic.\<close>

definition num_field :: "jsnum option \<Rightarrow> jsnum" where
  "num_field f = (case f of None \<Rightarrow> NaN | Some v \<Rightarrow> v)"

subsection \<open>Strings\<close>

text \<open>
  Strings are lists of characters. Titles, queries and store names are taken over ASCII:
  \<open>toLowerCase\<close> maps \<open>A\<close>..\<open>Z\<close> to \<open>a\<close>..\<open>z\<close> and leaves every other
  character as it is.
\<close>

definition toLowerChar :: "char \<Rightarrow> char" where
  "toLowerChar c =
     (case map_of (zip ''ABCDEFGHIJKLMNOPQRSTUVWXYZ'' ''abcdefghijklmnopqrstuvwxyz'') c of
        None \<Rightarrow> c
      | Some d \<Rightarrow> d)"

definition toLowerCase :: "string \<Rightarrow> string" where
  "toLowerCase s = map toLowerChar s"

text \<open>\<open>s.includes(t)\<close>: \<open>t\<close> occurs in \<open>s\<close> as a contiguous substring.\<close>

fun str_includes :: "string \<Rightarrow> string \<Rightarrow> bool" where
  "str_includes [] t = (t = [])"
| "str_includes (c # cs) t = (prefix t (c # cs) \<or> str_includes cs t)"

text \<open>The white space that \<open>trim\<close> strips, within ASCII.\<close>

definition is_space :: "char \<Rightarrow> bool" where
  "is_space c = (c \<in> set [CHR 0x09, CHR 0x0A, CHR 0x0B, CHR 0x0C, CHR 0x0D, CHR '' ''])"

definition trim :: "string \<Rightarrow> string" where
  "trim s = rev (dropWhile is_space (rev (dropWhile is_space s)))"

text \<open>\<open>s.slice(0, n)\<close> for a non-negative \<open>n\<close>.\<close>

definition slice0 :: "nat \<Rightarrow> string \<Rightarrow> string" where
  "slice0 n s = take n s"

text \<open>\<open>String(n)\<close> for a non-negative integer: its decimal digits.\<close>

definition digit_char :: "nat \<Rightarrow> char" where
  "digit_char d = ''0123456789'' ! d"

fun string_of_nat :: "nat \<Rightarrow> string" where
  "string_of_nat n =
     (if n < 10 then [digit_char n]
      else string_of_nat (n div 10) @ [digit_char (n mod 10)])"

declare string_of_nat.simps [simp del]

subsection \<open>Sorting\<close>

text \<open>
  \<open>Array.prototype.sort(cmp)\<close> is a stable sort: \<open>a\<close> is moved behind \<open>b\<close> only when
  \<open>cmp(a, b) > 0\<close>. For a comparator that is a consistent ordering the result is the one
  stable arrangement, which insertion from the right computes. Where the comparator yields
  \<open>NaN\<close> the language leaves the order to the implementation; the properties below that
  speak of order exclude that case by hypothesis.
\<close>

fun insert_by :: "('a \<Rightarrow> 'a \<Rightarrow> jsnum) \<Rightarrow> 'a \<Rightarrow> 'a list \<Rightarrow> 'a list" where
  "insert_by cmp x [] = [x]"
| "insert_by cmp x (y # ys) =
     (if js_pos (cmp x y) then y # insert_by cmp x ys else x # y # ys)"

definition js_sort :: "('a \<Rightarrow> 'a \<Rightarrow> jsnum) \<Rightarrow> 'a list \<Rightarrow> 'a list" where
  "js_sort cmp xs = foldr (insert_by cmp) xs []"

section \<open>Data model\<close>

text \<open>
  The \<open>id\<close> of a product or of a provider score entry: absent, a string, or a
  non-negative integer.
\<close>

datatype js_id = IdAbsent | IdStr string | IdNum nat

text \<open>\<open>String(v)\<close> of such a value.\<close>

fun String_id :: "js_id \<Rightarrow> string" where
  "String_id IdAbsent = ''undefined''"
| "String_id (IdStr s) = s"
| "String_id (IdNum n) = string_of_nat n"

text \<open>\<open>String(p.id || index)\<close>: an absent, empty or zero id is falsy.\<close>

fun id_or_index :: "js_id \<Rightarrow> nat \<Rightarrow> string" where
  "id_or_index IdAbsent index = string_of_nat index"
| "id_or_index (IdStr s) index = (if s = [] then string_of_nat index else s)"
| "id_or_index (IdNum n) index = (if n = 0 then string_of_nat index else string_of_nat n)"

text \<open>
  A product listing. An absent \<open>rating\<close>, \<open>reviews\<close> or \<open>discount\<close> is \<open>0\<close> (every
  test on them is \<open>> 0\<close>). The four score fields are absent until the ranker attaches them.
\<close>

record product =
  pid :: js_id
  title :: string
  price :: real
  store :: string
  link :: string
  rating :: real
  reviews :: real
  discount :: real
  image :: string
  CRS :: "jsnum option"
  R_Score :: "real option"
  P_Score :: "jsnum option"
  Irrelevance_Penalty :: "real option"

text \<open>A listing with a title and a price and no id, used in the concrete runs below.\<close>

definition listing :: "string \<Rightarrow> real \<Rightarrow> product" where
  "listing t pr =
     \<lparr>pid = IdAbsent, title = t, price = pr, store = ''Shop'',
      link = ''https://shop.example/item'', rating = 0, reviews = 0, discount = 0, image = [],
      CRS = None, R_Score = None, P_Score = None, Irrelevance_Penalty = None\<rparr>"

section \<open>The product ranker (product_ranker.js)\<close>

definition W_R :: real where "W_R = 3"
definition W_P :: real where "W_P = 1"
definition W_IR :: real where "W_IR = 5"

text \<open>Stage 1: what the ranker derives locally from one candidate.\<close>

record ai_product =
  ap_id :: string
  ap_title :: string
  ap_store :: string
  ap_price :: real
  is_accessory :: bool
  p_score :: jsnum

definition accessory_title :: "string \<Rightarrow> bool" where
  "accessory_title titleLower =
     (str_includes titleLower ''case'' \<or> str_includes titleLower ''cable'' \<or>
      str_includes titleLower ''protector'' \<or> str_includes titleLower ''charger'' \<or>
      str_includes titleLower ''adapter'' \<or> str_includes titleLower ''cover'' \<or>
      str_includes titleLower ''stand'')"

definition reference_price :: "real \<Rightarrow> real" where
  "reference_price pr = (if pr > 10000 then pr * 1.15 else pr * 2)"

definition value_score :: "real \<Rightarrow> jsnum" where
  "value_score pr =
     js_max (Num 0) (js_min (Num 1) (js_sub (Num 1) (js_div (Num pr) (Num (reference_price pr)))))"

definition stage1 :: "nat \<times> product \<Rightarrow> ai_product" where
  "stage1 ip =
     (case ip of (index, p) \<Rightarrow>
        \<lparr>ap_id = id_or_index (pid p) index,
         ap_title = title p,
         ap_store = store p,
         ap_price = price p,
         is_accessory = accessory_title (toLowerCase (title p)),
         p_score = value_score (price p)\<rparr>)"

text \<open>
  One element of the provider's score array. The array elements are objects, as the
  response schema of the request asks; a numeric field is a number, or absent or null.
\<close>

record ai_score =
  ai_id :: js_id
  ai_R_Score :: "real option"
  ai_Irrelevance_Penalty :: "real option"

text \<open>
  What the call to the scoring provider came to: the request was rejected, the HTTP status
  was not ok, the body was not JSON, the text of the first candidate was missing or empty,
  that text did not parse, it parsed to something that is not an array, or it parsed to an
  array.
\<close>

datatype gemini_response =
    FetchRejected
  | HttpNotOk nat
  | BodyNotJson
  | NoJsonText
  | TextNotJson
  | ParsedNotArray
  | ParsedArray "ai_score list"

datatype rank_error = FetchFailed | ApiReturned nat | NoStructuredData | ParseFailed

text \<open>Lines 109 to 136: the response, down to the score array.\<close>

fun read_scores :: "gemini_response \<Rightarrow> rank_error + ai_score list" where
  "read_scores FetchRejected = Inl FetchFailed"
| "read_scores (HttpNotOk status) = Inl (ApiReturned status)"
| "read_scores BodyNotJson = Inl FetchFailed"
| "read_scores NoJsonText = Inl NoStructuredData"
| "read_scores TextNotJson = Inl ParseFailed"
| "read_scores ParsedNotArray = Inl ParseFailed"
| "read_scores (ParsedArray aiScores) = Inr aiScores"

text \<open>The composite ranking score before clamping.\<close>

definition composite :: "real \<Rightarrow> jsnum \<Rightarrow> real \<Rightarrow> jsnum" where
  "composite r p q =
     js_sub (js_add (js_mul (Num W_R) (Num r)) (js_mul (Num W_P) p)) (js_mul (Num W_IR) (Num q))"

text \<open>Stage 3, one candidate.\<close>

definition stage3 :: "ai_product list \<Rightarrow> ai_score list \<Rightarrow> nat \<times> product \<Rightarrow> product" where
  "stage3 productsForAI aiScores ip =
     (case ip of (index, p) \<Rightarrow>
        let ident = id_or_index (pid p) index;
            productData = find (\<lambda>item. ap_id item = ident) productsForAI;
            aiData = find (\<lambda>s. String_id (ai_id s) = ident) aiScores;
            r = (case aiData of None \<Rightarrow> 0.5
                 | Some s \<Rightarrow> (case ai_R_Score s of None \<Rightarrow> 0.5 | Some v \<Rightarrow> v));
            q = (case aiData of None \<Rightarrow> 0.0
                 | Some s \<Rightarrow> (case ai_Irrelevance_Penalty s of None \<Rightarrow> 0.0 | Some v \<Rightarrow> v));
            ps = (case productData of None \<Rightarrow> Num 0.0 | Some d \<Rightarrow> p_score d)
        in p\<lparr>CRS := Some (js_max (Num 0) (composite r ps q)),
             R_Score := Some r,
             P_Score := Some ps,
             Irrelevance_Penalty := Some q\<rparr>)"

definition crs_desc :: "product \<Rightarrow> product \<Rightarrow> jsnum" where
  "crs_desc a b = js_sub (num_field (CRS b)) (num_field (CRS a))"

record rank_result =
  rankedProducts :: "product list"
  crsFailed :: bool

text \<open>The body of the \<open>try\<close> block.\<close>

definition rank_attempt :: "gemini_response \<Rightarrow> product list \<Rightarrow> rank_error + rank_result" where
  "rank_attempt response productCandidates =
     (let productsForAI = map stage1 (enumerate 0 productCandidates)
      in case read_scores response of
           Inl e \<Rightarrow> Inl e
         | Inr aiScores \<Rightarrow>
             Inr \<lparr>rankedProducts =
                    js_sort crs_desc
                      (map (stage3 productsForAI aiScores) (enumerate 0 productCandidates)),
                  crsFailed = False\<rparr>)"

text \<open>
  \<open>rankProducts\<close>: \<open>apiKey\<close> is the environment's credential (empty when unset) and
  \<open>response\<close> is what the provider answers to the request built from the query and the
  candidates.
\<close>

definition rankProducts :: "string \<Rightarrow> gemini_response \<Rightarrow> string \<Rightarrow> product list \<Rightarrow> rank_result" where
  "rankProducts apiKey response query productCandidates =
     (if apiKey = [] \<or> apiKey = ''your_gemini_api_key_here'' \<or> length productCandidates = 0
      then \<lparr>rankedProducts = productCandidates, crsFailed = True\<rparr>
      else case rank_attempt response productCandidates of
             Inl e \<Rightarrow> \<lparr>rankedProducts = productCandidates, crsFailed = True\<rparr>
           | Inr r \<Rightarrow> r)"

section \<open>The verdict generator (aiAdvisor.js)\<close>

text \<open>
  String constants of the services that hold symbols outside ASCII are spelled as the
  bytes of their UTF-8 encoding; no operation that counts characters is applied to them.
\<close>

definition rupee :: string where
  "rupee = [CHR 0xE2, CHR 0x82, CHR 0xB9]"

definition star :: string where
  "star = [CHR 0xE2, CHR 0xAD, CHR 0x90]"

definition warning_sign :: string where
  "warning_sign = [CHR 0xE2, CHR 0x9A, CHR 0xA0, CHR 0xEF, CHR 0xB8, CHR 0x8F]"

definition key_sign :: string where
  "key_sign = [CHR 0xF0, CHR 0x9F, CHR 0x94, CHR 0x91]"

definition pensive_face :: string where
  "pensive_face = [CHR 0xF0, CHR 0x9F, CHR 0x98, CHR 0x94]"

text \<open>
  What a run reads from outside the services: the configuration of the process, what each
  source adapter settles to for the query (a scraper that fails or times out settles to the
  empty list; the search API's failure is the message of the error), what the two provider
  calls come to, the two renderings of numbers (\<open>String(x)\<close> and \<open>x.toLocaleString()\<close>),
  and the clock at the start and at the end of the run.
\<close>

datatype verdict_response =
    VFetchRejected
  | VHttpNotOk nat
  | VBodyNotJson
  | VNoCandidate
  | VCandidate string "string option"

record env =
  USE_SERPAPI :: bool
  USE_AMAZON_FLIPKART_DIRECT :: bool
  GEMINI_API_KEY :: string
  SERPAPI_KEY :: string
  scrapeAmazon :: "string \<Rightarrow> product list"
  scrapeFlipkart :: "string \<Rightarrow> product list"
  searchGoogleShopping :: "string \<Rightarrow> string + product list"
  rank_response :: gemini_response
  verdict_response :: verdict_response
  String_num :: "real \<Rightarrow> string"
  toLocaleString :: "real \<Rightarrow> string"
  now_start :: int
  now_end :: int

text \<open>\<open>products.reduce((max, p) => p.price > max.price ? p : max, products[0])\<close>\<close>

definition most_expensive :: "product \<Rightarrow> product list \<Rightarrow> product" where
  "most_expensive first products = foldl (\<lambda>mx p. if price p > price mx then p else mx) first products"

definition fallback_text :: "env \<Rightarrow> product \<Rightarrow> product list \<Rightarrow> string \<Rightarrow> string" where
  "fallback_text e best products note =
     (let hasDiscount = (discount best > 0);
          hasRating = (rating best > 0);
          hasReviews = (reviews best > 0);
          otherProductsCount = length products - 1;
          s0 = ''Our top recommendation is the **'' @ title best @ ''** from '' @ store best
                 @ '' for '' @ rupee @ toLocaleString e (price best) @ ''.'';
          s1 = (if hasDiscount
                then s0 @ '' This fantastic deal includes a huge **'' @ String_num e (discount best)
                        @ ''% off** the original price, making it an excellent value choice.''
                else s0 @ '' It stands out as the best choice based on its competitive price and overall value.'');
          s2 = (if hasRating
                then (let t = s1 @ '' Customers love this product, giving it a high rating of **''
                                @ star @ '' '' @ String_num e (rating best) @ ''/5**.''
                      in if hasReviews
                         then t @ '' With '' @ toLocaleString e (reviews best)
                                @ '' verified reviews, you can shop with confidence.''
                         else t)
                else if hasReviews
                then s1 @ '' This product has been widely purchased and reviewed by ''
                        @ toLocaleString e (reviews best) @ '' customers.''
                else s1);
          s3 = (if length products > 1
                then (let mostExpensive = most_expensive best products;
                          savings = price mostExpensive - price best
                      in if savings > 0 \<and> otherProductsCount > 0
                         then s2 @ '' Considering the '' @ string_of_nat otherProductsCount
                                @ '' other option'' @ (if otherProductsCount > 1 then ''s'' else [])
                                @ '' we found, choosing this deal allows you to **save up to ''
                                @ rupee @ toLocaleString e savings @ ''!**''
                         else s2)
                else s2)
      in if note \<noteq> [] then s3 @ '' '' @ note else s3)"

definition generateFallbackSummary :: "env \<Rightarrow> product list \<Rightarrow> string \<Rightarrow> string" where
  "generateFallbackSummary e products note =
     (case products of
        [] \<Rightarrow> ''No products available to analyze.''
      | best # others \<Rightarrow> fallback_text e best products note)"

datatype verdict_error = VApiReturned nat | VRequestFailed | VInvalidStructure | VNoText

text \<open>
  The body of the \<open>try\<close> block of \<open>aiVerdict\<close>, from the response on. A candidate comes
  with its \<open>finishReason\<close> and the text of its first part (\<open>None\<close> when there is no
  part or no text).
\<close>

fun verdict_attempt :: "env \<Rightarrow> product list \<Rightarrow> string \<Rightarrow> verdict_response \<Rightarrow> verdict_error + string" where
  "verdict_attempt e products note VFetchRejected = Inl VRequestFailed"
| "verdict_attempt e products note (VHttpNotOk status) = Inl (VApiReturned status)"
| "verdict_attempt e products note VBodyNotJson = Inl VRequestFailed"
| "verdict_attempt e products note VNoCandidate = Inl VInvalidStructure"
| "verdict_attempt e products note (VCandidate finishReason txt) =
     (if finishReason = ''SAFETY'' \<or> finishReason = ''RECITATION'' \<or> finishReason = ''MAX_TOKENS''
      then Inr (generateFallbackSummary e products note)
      else case txt of
             None \<Rightarrow> Inl VNoText
           | Some t \<Rightarrow>
               if t = [] then Inl VNoText
               else (let verdict = trim t
                     in if verdict = [] then Inr (generateFallbackSummary e products note)
                        else Inr verdict))"

definition aiVerdict :: "env \<Rightarrow> product list \<Rightarrow> string \<Rightarrow> string" where
  "aiVerdict e products crsFailureMessage =
     (if GEMINI_API_KEY e = [] \<or> GEMINI_API_KEY e = ''your_gemini_api_key_here''
      then generateFallbackSummary e products crsFailureMessage
      else case verdict_attempt e products crsFailureMessage (verdict_response e) of
             Inl err \<Rightarrow> generateFallbackSummary e products crsFailureMessage
           | Inr s \<Rightarrow> s)"

section \<open>The aggregator (aggregator.js)\<close>

text \<open>
  The deduplication key is the template string \<open>title.toLowerCase().slice(0, 50).trim()\<close>,
  an underscore, and the price. The rendering of a number holds no underscore and tells
  numbers apart, so two keys are the same string exactly when both parts agree: the key is
  modelled as the pair.
\<close>

definition dedup_key :: "product \<Rightarrow> string \<times> real" where
  "dedup_key p = (trim (slice0 50 (toLowerCase (title p))), price p)"

fun dedup_filter :: "(string \<times> real \<rightharpoonup> bool) \<Rightarrow> product list \<Rightarrow> product list" where
  "dedup_filter seen [] = []"
| "dedup_filter seen (p # ps) =
     (let key = dedup_key p
      in if key \<in> dom seen then dedup_filter seen ps
         else p # dedup_filter (seen(key \<mapsto> True)) ps)"

definition deduplicateProducts :: "product list \<Rightarrow> product list" where
  "deduplicateProducts products = dedup_filter Map.empty products"

definition filter_accessory_title :: "string \<Rightarrow> bool" where
  "filter_accessory_title titleLower =
     (str_includes titleLower ''case'' \<or> str_includes titleLower ''cover'' \<or>
      str_includes titleLower ''protector'' \<or> str_includes titleLower ''charger'' \<or>
      str_includes titleLower ''cable'' \<or> str_includes titleLower ''stand'')"

definition isPrimaryQuery :: "string \<Rightarrow> bool" where
  "isPrimaryQuery queryLower =
     (\<not> str_includes queryLower ''case'' \<and> \<not> str_includes queryLower ''cover'' \<and>
      \<not> str_includes queryLower ''charger'' \<and> \<not> str_includes queryLower ''cable'' \<and>
      \<not> str_includes queryLower ''protector'' \<and> \<not> str_includes queryLower ''stand'')"

definition keep_product :: "product \<Rightarrow> bool" where
  "keep_product p =
     (let titleLower = toLowerCase (title p);
          isAccessory = filter_accessory_title titleLower
      in if isAccessory \<and> price p < 1000 then False else True)"

definition simpleAccessoryFilter :: "string \<Rightarrow> product list \<Rightarrow> product list" where
  "simpleAccessoryFilter query products =
     (let queryLower = toLowerCase query
      in if \<not> isPrimaryQuery queryLower then products
         else filter keep_product products)"

record source_report =
  src_name :: string
  src_count :: nat
  src_type :: "string option"
  src_directLinks :: "nat option"
  src_redirectLinks :: "nat option"
  src_error :: "string option"

record strategy =
  amazonFlipkartDirect :: bool
  serpApiOthers :: bool

record metadata =
  totalResults :: nat
  topPrice :: "real option"
  topStore :: "string option"
  rankedByAI :: bool
  fetchTime :: int
  directLinks :: nat
  redirectLinks :: nat
  sources :: "source_report list"
  strategy :: "strategy option"

record aggregation_result =
  items :: "product list"
  summary :: string
  metadata :: metadata

definition getSetupMessage :: "env \<Rightarrow> string" where
  "getSetupMessage e =
     (if \<not> USE_SERPAPI e \<and> \<not> USE_AMAZON_FLIPKART_DIRECT e
      then warning_sign @ '' No data sources enabled. Enable USE_SERPAPI and/or USE_AMAZON_FLIPKART_DIRECT in .env''
      else if USE_SERPAPI e \<and> (SERPAPI_KEY e = [] \<or> SERPAPI_KEY e = ''your_serpapi_key_here'')
      then key_sign @ '' Please add SERPAPI_KEY to .env file. Get free key at: https://serpapi.com/users/sign_up''
      else pensive_face @ '' No products found. Try a different search term.'')"

text \<open>The comparator \<open>(a.price || Infinity) - (b.price || Infinity)\<close>.\<close>

definition price_or_inf :: "product \<Rightarrow> jsnum" where
  "price_or_inf p = (if price p = 0 then PInf else Num (price p))"

definition price_asc :: "product \<Rightarrow> product \<Rightarrow> jsnum" where
  "price_asc a b = js_sub (price_or_inf a) (price_or_inf b)"

text \<open>Step 1: the two direct scrapers, each settled, in their fixed order.\<close>

definition direct_step :: "string \<Rightarrow> product list \<Rightarrow> product list \<times> source_report list
    \<Rightarrow> product list \<times> source_report list" where
  "direct_step nm data acc =
     (case acc of (its, srcs) \<Rightarrow>
        if length data > 0
        then (its @ data,
              srcs @ [\<lparr>src_name = nm, src_count = length data, src_type = Some ''direct'',
                       src_directLinks = None, src_redirectLinks = None, src_error = None\<rparr>])
        else (its,
              srcs @ [\<lparr>src_name = nm, src_count = 0, src_type = Some ''failed'',
                       src_directLinks = None, src_redirectLinks = None, src_error = None\<rparr>]))"

definition direct_scrapers :: "env \<Rightarrow> string \<Rightarrow> product list \<times> source_report list
    \<Rightarrow> product list \<times> source_report list" where
  "direct_scrapers e query acc =
     (if USE_AMAZON_FLIPKART_DIRECT e
      then direct_step ''Flipkart'' (scrapeFlipkart e query)
             (direct_step ''Amazon'' (scrapeAmazon e query) acc)
      else acc)"

text \<open>Step 2: the search API, without the stores that were scraped directly.\<close>

definition is_redirect :: "product \<Rightarrow> bool" where
  "is_redirect p = str_includes (link p) ''google.com''"

definition serp_step :: "env \<Rightarrow> string \<Rightarrow> product list \<times> source_report list
    \<Rightarrow> product list \<times> source_report list" where
  "serp_step e query acc =
     (case acc of (its, srcs) \<Rightarrow>
        if USE_SERPAPI e
        then (case searchGoogleShopping e query of
                Inl message \<Rightarrow>
                  (its,
                   srcs @ [\<lparr>src_name = ''SerpAPI'', src_count = 0, src_type = None,
                            src_directLinks = None, src_redirectLinks = None,
                            src_error = Some message\<rparr>])
              | Inr serpResults \<Rightarrow>
                  (let filteredResults =
                         (if USE_AMAZON_FLIPKART_DIRECT e
                          then filter (\<lambda>p. let st = toLowerCase (store p)
                                           in \<not> list_ex (\<lambda>ds. str_includes st ds)
                                                  [''amazon'', ''flipkart''])
                                 serpResults
                          else serpResults);
                       direct = length (filter (\<lambda>p. \<not> is_redirect p) filteredResults);
                       redirect = length filteredResults - direct
                   in (its @ filteredResults,
                       srcs @ [\<lparr>src_name = ''SerpAPI (Other Stores)'',
                                src_count = length filteredResults,
                                src_type = Some ''serpapi'',
                                src_directLinks = Some direct,
                                src_redirectLinks = Some redirect,
                                src_error = None\<rparr>])))
        else acc)"

definition valid_item :: "product \<Rightarrow> bool" where
  "valid_item item = (price item > 0 \<and> title item \<noteq> [] \<and> link item \<noteq> [])"

text \<open>The merged list: both steps, the validity filter, deduplication.\<close>

definition merged :: "env \<Rightarrow> string \<Rightarrow> product list" where
  "merged e query =
     deduplicateProducts (filter valid_item (fst (serp_step e query (direct_scrapers e query ([], [])))))"

definition head_opt :: "'a list \<Rightarrow> 'a option" where
  "head_opt xs = (case xs of [] \<Rightarrow> None | x # _ \<Rightarrow> Some x)"

text \<open>
  Lines 229 to 266. Neither \<open>rankProducts\<close> nor \<open>aiVerdict\<close> throws on a list of
  products, so the \<open>catch\<close> of line 268 is not a branch here. The result is the item
  list, the summary, \<open>rankedProducts\<close> and \<open>rankingFailed\<close>.
\<close>

definition rank_and_verdict :: "env \<Rightarrow> string \<Rightarrow> product list
    \<Rightarrow> product list \<times> string \<times> product list \<times> bool" where
  "rank_and_verdict e query its =
     (let topCount = min 20 (length its);
          productsForAI = take topCount its;
          rankResult = rankProducts (GEMINI_API_KEY e) (rank_response e) query productsForAI;
          ranked = rankedProducts rankResult;
          rankingFailed = crsFailed rankResult;
          productsForVerdict =
            (if length ranked > 0 \<and> \<not> rankingFailed then take 5 ranked else take 5 productsForAI);
          rankNote =
            (if rankingFailed
             then '' (Note: AI ranking temporarily unavailable, results filtered and sorted by price.)''
             else []);
          summ = aiVerdict e productsForVerdict rankNote;
          its' =
            (if length ranked > 0 \<and> \<not> rankingFailed
             then (let spliced = ranked @ drop (length productsForAI) its;
                       remainingItems = drop (length productsForAI) spliced
                   in take (length productsForAI) spliced @ js_sort price_asc remainingItems)
             else its)
      in (its', summ, ranked, rankingFailed))"

text \<open>Lines 275 to 290: the fallback when ranking failed.\<close>

definition fallback_filter :: "env \<Rightarrow> string \<Rightarrow> product list \<times> string \<Rightarrow> product list \<times> string" where
  "fallback_filter e query st =
     (case st of (its, summ) \<Rightarrow>
        let beforeFilter = length its;
            filtered = simpleAccessoryFilter query its
        in if length filtered < beforeFilter
           then (let resorted = js_sort price_asc filtered
                 in case head_opt resorted of
                      None \<Rightarrow> (resorted, summ)
                    | Some newTopProduct \<Rightarrow>
                        (resorted,
                         ''Found '' @ string_of_nat (length resorted) @ '' products! Best deal: ''
                           @ rupee @ String_num e (price newTopProduct) @ '' from ''
                           @ store newTopProduct
                           @ ''. (Note: AI ranking unavailable. Cheap accessories filtered out.)''))
           else (filtered, summ))"

definition getProductResults :: "env \<Rightarrow> string \<Rightarrow> aggregation_result" where
  "getProductResults e query =
     (let collected = serp_step e query (direct_scrapers e query ([], []));
          srcs = snd collected;
          its = merged e query;
          direct = length (filter (\<lambda>p. \<not> is_redirect p) its);
          redirect = length its - direct
      in if length its = 0
         then \<lparr>items = [], summary = getSetupMessage e,
               metadata = \<lparr>totalResults = 0, topPrice = None, topStore = None,
                            rankedByAI = False, fetchTime = now_end e - now_start e,
                            directLinks = 0, redirectLinks = 0, sources = srcs,
                            strategy = None\<rparr>\<rparr>
         else (case rank_and_verdict e query (js_sort price_asc its) of
                 (its1, summ1, ranked, rankingFailed) \<Rightarrow>
                   (case (if rankingFailed then fallback_filter e query (its1, summ1)
                          else (its1, summ1)) of
                      (its2, summ2) \<Rightarrow>
                        \<lparr>items = its2, summary = summ2,
                         metadata =
                           \<lparr>totalResults = length its2,
                            topPrice = map_option price (head_opt its2),
                            topStore = map_option store (head_opt its2),
                            rankedByAI = (\<not> rankingFailed \<and> length ranked > 0),
                            fetchTime = now_end e - now_start e,
                            directLinks = direct, redirectLinks = redirect, sources = srcs,
                            strategy = Some \<lparr>amazonFlipkartDirect = USE_AMAZON_FLIPKART_DIRECT e,
                                             serpApiOthers = USE_SERPAPI e\<rparr>\<rparr>\<rparr>)))"

text \<open>
  An environment for the concrete runs below: only the direct scrapers are enabled, the
  first returns a mouse and a cheap cable, the credential is set, and the scoring provider
  answers with text that is not JSON.
\<close>

definition example_env :: env where
  "example_env =
     \<lparr>USE_SERPAPI = False, USE_AMAZON_FLIPKART_DIRECT = True, GEMINI_API_KEY = ''key'',
      SERPAPI_KEY = [],
      scrapeAmazon = (\<lambda>q. [listing ''Wireless Mouse'' 25, listing ''Mouse cable'' 5]),
      scrapeFlipkart = (\<lambda>q. []),
      searchGoogleShopping = (\<lambda>q. Inl ''Timeout''),
      rank_response = TextNotJson, verdict_response = VFetchRejected,
      String_num = (\<lambda>x. ''25''), toLocaleString = (\<lambda>x. ''25''),
      now_start = 0, now_end = 1\<rparr>"

section \<open>Properties of the sort\<close>

lemma mset_insert_by: "mset (insert_by cmp x ys) = add_mset x (mset ys)"
  by (induction ys) auto

lemma mset_js_sort: "mset (js_sort cmp xs) = mset xs"
  by (induction xs) (auto simp: js_sort_def mset_insert_by)

lemma set_js_sort: "set (js_sort cmp xs) = set xs"
  using mset_js_sort [of cmp xs] by (metis set_mset_mset)

lemma length_js_sort: "length (js_sort cmp xs) = length xs"
  using mset_js_sort [of cmp xs] by (metis size_mset)

lemma set_insert_by: "set (insert_by cmp x ys) = insert x (set ys)"
  using mset_insert_by [of cmp x ys] by (metis set_mset_mset set_mset_add_mset_insert)

lemma sorted_insert_by:
  assumes tot: "\<And>y. y \<in> set ys \<Longrightarrow> js_pos (cmp x y) \<Longrightarrow> le y x"
      and nle: "\<And>y. y \<in> set ys \<Longrightarrow> \<not> js_pos (cmp x y) \<Longrightarrow> le x y"
      and tr: "\<And>y z. y \<in> set ys \<Longrightarrow> z \<in> set ys \<Longrightarrow> le x y \<Longrightarrow> le y z \<Longrightarrow> le x z"
      and srt: "sorted_wrt le ys"
  shows "sorted_wrt le (insert_by cmp x ys)"
  using assms
proof (induction ys)
  case Nil
  then show ?case by simp
next
  case (Cons y ys)
  show ?case
  proof (cases "js_pos (cmp x y)")
    case True
    have "sorted_wrt le (insert_by cmp x ys)"
      using Cons by (intro Cons.IH) auto
    moreover have "\<forall>z \<in> set (insert_by cmp x ys). le y z"
      using Cons.prems True by (auto simp: set_insert_by)
    ultimately show ?thesis using True by simp
  next
    case False
    have xy: "le x y" using Cons.prems(2) [of y] False by simp
    have "\<forall>z \<in> set ys. le x z"
      using Cons.prems xy by (metis list.set_intros(1,2) sorted_wrt.simps(2))
    then show ?thesis using False xy Cons.prems(4) by simp
  qed
qed

lemma js_sort_sorted:
  assumes tot: "\<And>x y. x \<in> set xs \<Longrightarrow> y \<in> set xs \<Longrightarrow> js_pos (cmp x y) \<Longrightarrow> le y x"
      and nle: "\<And>x y. x \<in> set xs \<Longrightarrow> y \<in> set xs \<Longrightarrow> \<not> js_pos (cmp x y) \<Longrightarrow> le x y"
      and tr: "\<And>x y z. x \<in> set xs \<Longrightarrow> y \<in> set xs \<Longrightarrow> z \<in> set xs \<Longrightarrow> le x y \<Longrightarrow> le y z \<Longrightarrow> le x z"
  shows "sorted_wrt le (js_sort cmp xs)"
proof -
  have "set ys \<subseteq> set xs \<Longrightarrow> sorted_wrt le (js_sort cmp ys)" for ys
  proof (induction ys)
    case Nil
    show ?case by (simp add: js_sort_def)
  next
    case (Cons y ys)
    from Cons.prems have yin: "y \<in> set xs" and sub: "set ys \<subseteq> set xs" by simp_all
    have IH: "sorted_wrt le (js_sort cmp ys)" by (rule Cons.IH [OF sub])
    have mem: "z \<in> set xs" if "z \<in> set (js_sort cmp ys)" for z
      using that sub unfolding set_js_sort by (rule subsetD [rotated])
    have "sorted_wrt le (insert_by cmp y (js_sort cmp ys))"
    proof (rule sorted_insert_by [OF _ _ _ IH])
      fix z assume z: "z \<in> set (js_sort cmp ys)" and p: "js_pos (cmp y z)"
      show "le z y" by (rule tot [OF yin mem [OF z] p])
    next
      fix z assume z: "z \<in> set (js_sort cmp ys)" and p: "\<not> js_pos (cmp y z)"
      show "le y z" by (rule nle [OF yin mem [OF z] p])
    next
      fix z w assume z: "z \<in> set (js_sort cmp ys)" and w: "w \<in> set (js_sort cmp ys)"
        and a: "le y z" and b: "le z w"
      show "le y w" by (rule tr [OF yin mem [OF z] mem [OF w] a b])
    qed
    then show ?case by (simp add: js_sort_def)
  qed
  then show ?thesis by simp
qed

lemma js_sort_sorted_id:
  "sorted_wrt (\<lambda>a b. \<not> js_pos (cmp a b)) xs \<Longrightarrow> js_sort cmp xs = xs"
proof (induction xs)
  case Nil
  then show ?case by (simp add: js_sort_def)
next
  case (Cons x xs)
  then have "js_sort cmp xs = xs" by simp
  then have "js_sort cmp (x # xs) = insert_by cmp x xs" by (simp add: js_sort_def)
  also have "\<dots> = x # xs" using Cons.prems by (cases xs) auto
  finally show ?case .
qed

section \<open>Properties of the ranker\<close>

text \<open>
  C10. With an empty candidate list \<open>rankProducts\<close> returns that empty list with
  \<open>crsFailed\<close> set, whatever the credential and whatever the provider would answer; so
  the caller's ranking step, given an empty list, always ends with \<open>rankingFailed\<close> set,
  the flag that activates the fallback, even when the provider is configured and healthy.
\<close>

theorem rankProducts_empty_fails:
  "rankProducts apiKey response query [] = \<lparr>rankedProducts = [], crsFailed = True\<rparr>
   \<and> fst (rank_and_verdict e query []) = []
   \<and> fst (snd (snd (rank_and_verdict e query []))) = []
   \<and> snd (snd (snd (rank_and_verdict e query [])))"
  by (simp add: rankProducts_def rank_and_verdict_def Let_def)

text \<open>
  C1. When the credential is not configured (unset, or the placeholder), when the provider
  answers with an HTTP error, when the response holds no text, when the text does not
  parse, and when it parses to something that is not an array, \<open>rankProducts\<close> returns a
  value (the error stays inside) made of the candidate list as it was given and
  \<open>crsFailed = true\<close>.
\<close>

theorem rankProducts_failure_returns_candidates:
  "rankProducts [] response query cands = \<lparr>rankedProducts = cands, crsFailed = True\<rparr>
   \<and> rankProducts ''your_gemini_api_key_here'' response query cands
       = \<lparr>rankedProducts = cands, crsFailed = True\<rparr>
   \<and> rankProducts apiKey (HttpNotOk status) query cands
       = \<lparr>rankedProducts = cands, crsFailed = True\<rparr>
   \<and> rankProducts apiKey NoJsonText query cands = \<lparr>rankedProducts = cands, crsFailed = True\<rparr>
   \<and> rankProducts apiKey TextNotJson query cands = \<lparr>rankedProducts = cands, crsFailed = True\<rparr>
   \<and> rankProducts apiKey ParsedNotArray query cands
       = \<lparr>rankedProducts = cands, crsFailed = True\<rparr>"
  by (simp add: rankProducts_def rank_attempt_def)








section \<open>Properties of the value score\<close>

lemma value_score_nonzero:
  "pr \<noteq> 0 \<Longrightarrow> value_score pr = Num (if pr > 10000 then 3 / 23 else 1 / 2)"
  by (simp add: value_score_def reference_price_def js_sub_def)

lemma value_score_zero: "value_score 0 = NaN"
  by (simp add: value_score_def reference_price_def js_sub_def)




text \<open>
  The claim C8 as stated fails at the price \<open>0\<close> (which \<open>p.price || 0\<close> also gives to
  a candidate without a price): the reference price is \<open>0\<close>, the quotient is \<open>0 / 0\<close>,
  and the clamp lets \<open>NaN\<close> through, into the stored \<open>P_Score\<close> and \<open>CRS\<close>.
\<close>

theorem value_score_zero_price_nan:
  "(0::real) \<le> 0
   \<and> \<not> js_between 0 1 (value_score 0)
   \<and> value_score 0 = NaN
   \<and> rankedProducts (rankProducts ''key'' (ParsedArray []) ''phone'' [listing ''Phone'' 0])
       = [(listing ''Phone'' 0)\<lparr>CRS := Some NaN, R_Score := Some 0.5, P_Score := Some NaN,
                                Irrelevance_Penalty := Some 0\<rparr>]"
  by (simp add: value_score_zero rankProducts_def rank_attempt_def stage1_def stage3_def
        js_sort_def composite_def js_sub_def listing_def string_of_nat.simps digit_char_def
        W_R_def W_P_def W_IR_def)

text \<open>
  C8, amended. For every positive price (the validity filter of the aggregator lets no
  other price reach the ranker) the value score is a number in the closed interval
  \<open>[0, 1]\<close>.
\<close>

theorem value_score_in_unit_interval:
  assumes "0 < pr"
  shows "js_between 0 1 (value_score pr)"
  using assms by (simp add: value_score_nonzero)

theorem value_score_in_unit_interval_witness:
  "(0::real) < 25 \<and> js_between 0 1 (value_score 25)"
proof -
  have h: "(0::real) < 25" by simp
  from h value_score_in_unit_interval [OF h] show ?thesis by (rule conjI)
qed

section \<open>Ids that the provider leaves out\<close>




section \<open>Properties of the accessory filter\<close>





section \<open>Properties of deduplication\<close>

lemma dedup_filter_Cons_seen:
  "dedup_key q \<in> dom seen \<Longrightarrow> dedup_filter seen (q # ps) = dedup_filter seen ps"
  by (simp add: Let_def)

lemma dedup_filter_Cons_new:
  "dedup_key q \<notin> dom seen \<Longrightarrow>
     dedup_filter seen (q # ps) = q # dedup_filter (seen(dedup_key q \<mapsto> True)) ps"
  by (simp add: Let_def)

lemma not_in_dom_upd: "k' \<notin> dom (seen(k \<mapsto> True)) \<longleftrightarrow> k' \<noteq> k \<and> k' \<notin> dom seen"
  by simp

lemma dedup_filter_keys:
  "p \<in> set (dedup_filter seen ps) \<Longrightarrow> dedup_key p \<notin> dom seen \<and> p \<in> set ps"
proof (induction ps arbitrary: seen)
  case Nil
  then show ?case by simp
next
  case (Cons q ps)
  show ?case
  proof (cases "dedup_key q \<in> dom seen")
    case True
    from Cons.prems have "p \<in> set (dedup_filter seen ps)"
      unfolding dedup_filter_Cons_seen [OF True] .
    from Cons.IH [OF this] show ?thesis by simp
  next
    case False
    from Cons.prems have "p = q \<or> p \<in> set (dedup_filter (seen(dedup_key q \<mapsto> True)) ps)"
      unfolding dedup_filter_Cons_new [OF False] by simp
    then show ?thesis
    proof
      assume "p = q"
      then show ?thesis using False by simp
    next
      assume "p \<in> set (dedup_filter (seen(dedup_key q \<mapsto> True)) ps)"
      from Cons.IH [OF this]
      have "dedup_key p \<notin> dom (seen(dedup_key q \<mapsto> True))" and "p \<in> set ps" by blast+
      then show ?thesis unfolding not_in_dom_upd by simp
    qed
  qed
qed

lemma dedup_filter_distinct: "distinct (map dedup_key (dedup_filter seen ps))"
proof (induction ps arbitrary: seen)
  case Nil
  then show ?case by simp
next
  case (Cons q ps)
  show ?case
  proof (cases "dedup_key q \<in> dom seen")
    case True
    show ?thesis unfolding dedup_filter_Cons_seen [OF True] by (rule Cons.IH)
  next
    case False
    have "dedup_key q \<notin> dedup_key ` set (dedup_filter (seen(dedup_key q \<mapsto> True)) ps)"
    proof
      assume "dedup_key q \<in> dedup_key ` set (dedup_filter (seen(dedup_key q \<mapsto> True)) ps)"
      then obtain r where r: "r \<in> set (dedup_filter (seen(dedup_key q \<mapsto> True)) ps)"
        and eq: "dedup_key q = dedup_key r" by blast
      from dedup_filter_keys [OF r] have "dedup_key r \<notin> dom (seen(dedup_key q \<mapsto> True))"
        by blast
      then have "dedup_key r \<noteq> dedup_key q" unfolding not_in_dom_upd by blast
      with eq show False by simp
    qed
    moreover have "distinct (map dedup_key (dedup_filter (seen(dedup_key q \<mapsto> True)) ps))"
      by (rule Cons.IH)
    ultimately show ?thesis
      unfolding dedup_filter_Cons_new [OF False] by simp
  qed
qed

lemma dedup_filter_subseq: "subseq (dedup_filter seen ps) ps"
proof (induction ps arbitrary: seen)
  case Nil
  then show ?case by simp
next
  case (Cons q ps)
  show ?case
  proof (cases "dedup_key q \<in> dom seen")
    case True
    show ?thesis unfolding dedup_filter_Cons_seen [OF True]
      by (rule list_emb_Cons) (rule Cons.IH)
  next
    case False
    show ?thesis unfolding dedup_filter_Cons_new [OF False]
      by (rule subseq_Cons2) (rule Cons.IH)
  qed
qed

lemma dedup_filter_first:
  "p \<in> set (dedup_filter seen ps) \<Longrightarrow> find (\<lambda>q. dedup_key q = dedup_key p) ps = Some p"
proof (induction ps arbitrary: seen)
  case Nil
  then show ?case by simp
next
  case (Cons q ps)
  show ?case
  proof (cases "dedup_key q \<in> dom seen")
    case True
    from Cons.prems have mem: "p \<in> set (dedup_filter seen ps)"
      unfolding dedup_filter_Cons_seen [OF True] .
    from dedup_filter_keys [OF mem] have "dedup_key p \<notin> dom seen" by blast
    with True have "dedup_key q \<noteq> dedup_key p" by metis
    then show ?thesis using Cons.IH [OF mem] by simp
  next
    case False
    from Cons.prems have "p = q \<or> p \<in> set (dedup_filter (seen(dedup_key q \<mapsto> True)) ps)"
      unfolding dedup_filter_Cons_new [OF False] by simp
    then show ?thesis
    proof
      assume "p = q"
      then show ?thesis by simp
    next
      assume mem: "p \<in> set (dedup_filter (seen(dedup_key q \<mapsto> True)) ps)"
      from dedup_filter_keys [OF mem] have "dedup_key p \<notin> dom (seen(dedup_key q \<mapsto> True))"
        by blast
      then have "dedup_key q \<noteq> dedup_key p" unfolding not_in_dom_upd by metis
      then show ?thesis using Cons.IH [OF mem] by simp
    qed
  qed
qed

lemma dedup_filter_covers:
  "p \<in> set ps \<Longrightarrow> dedup_key p \<notin> dom seen
     \<Longrightarrow> dedup_key p \<in> dedup_key ` set (dedup_filter seen ps)"
proof (induction ps arbitrary: seen)
  case Nil
  then show ?case by simp
next
  case (Cons q ps)
  show ?case
  proof (cases "dedup_key q \<in> dom seen")
    case True
    with Cons.prems have "p \<in> set ps" by auto
    from Cons.IH [OF this Cons.prems(2)] show ?thesis
      unfolding dedup_filter_Cons_seen [OF True] .
  next
    case False
    show ?thesis
    proof (cases "dedup_key p = dedup_key q")
      case True
      then show ?thesis unfolding dedup_filter_Cons_new [OF False] by simp
    next
      case ne: False
      with Cons.prems have mem: "p \<in> set ps" by auto
      have "dedup_key p \<notin> dom (seen(dedup_key q \<mapsto> True))"
        unfolding not_in_dom_upd using ne Cons.prems(2) by blast
      from Cons.IH [OF mem this]
      have "dedup_key p \<in> dedup_key ` set (dedup_filter (seen(dedup_key q \<mapsto> True)) ps)" .
      then show ?thesis unfolding dedup_filter_Cons_new [OF False] by (simp only: list.set image_insert insert_iff) blast
    qed
  qed
qed

text \<open>
  C5. After deduplication no two survivors have the same key (the lower-cased title cut to
  50 characters and trimmed, with the price); the survivors are a subsequence of the input,
  so they keep their relative order; each survivor is the first product of the input with
  its key; and every key of the input is the key of a survivor.
\<close>

theorem deduplicateProducts_unique_first:
  "distinct (map dedup_key (deduplicateProducts ps))
   \<and> subseq (deduplicateProducts ps) ps
   \<and> (\<forall>p \<in> set (deduplicateProducts ps). find (\<lambda>q. dedup_key q = dedup_key p) ps = Some p)
   \<and> dedup_key ` set (deduplicateProducts ps) = dedup_key ` set ps"
proof -
  have "dedup_key ` set (deduplicateProducts ps) = dedup_key ` set ps"
    unfolding deduplicateProducts_def
    using dedup_filter_covers [of _ ps Map.empty] dedup_filter_keys [of _ Map.empty ps]
    by (auto simp: image_iff)
  then show ?thesis
    unfolding deduplicateProducts_def
    using dedup_filter_distinct dedup_filter_subseq dedup_filter_first by blast
qed

theorem deduplicateProducts_unique_first_witness:
  "deduplicateProducts [listing ''Phone X'' 5, listing ''phone x  '' 5, listing ''phone x'' 6]
     = [listing ''Phone X'' 5, listing ''phone x'' 6]
   \<and> find (\<lambda>q. dedup_key q = dedup_key (listing ''Phone X'' 5))
         [listing ''Phone X'' 5, listing ''phone x  '' 5, listing ''phone x'' 6]
       = Some (listing ''Phone X'' 5)
   \<and> distinct (map dedup_key
         (deduplicateProducts [listing ''Phone X'' 5, listing ''phone x  '' 5, listing ''phone x'' 6]))"
proof -
  let ?L = "[listing ''Phone X'' 5, listing ''phone x  '' 5, listing ''phone x'' 6]"
  have run: "deduplicateProducts ?L = [listing ''Phone X'' 5, listing ''phone x'' 6]"
    by (simp add: deduplicateProducts_def dedup_key_def slice0_def trim_def is_space_def
          toLowerCase_def toLowerChar_def listing_def Let_def)
  have mem: "listing ''Phone X'' 5 \<in> set (deduplicateProducts ?L)"
    unfolding run by simp
  from deduplicateProducts_unique_first [of ?L]
  have d: "distinct (map dedup_key (deduplicateProducts ?L))"
    and f: "\<forall>p \<in> set (deduplicateProducts ?L). find (\<lambda>q. dedup_key q = dedup_key p) ?L = Some p"
    by blast+
  from f mem have "find (\<lambda>q. dedup_key q = dedup_key (listing ''Phone X'' 5)) ?L
                     = Some (listing ''Phone X'' 5)"
    by blast
  with run d show ?thesis by blast
qed

section \<open>Properties of the pipeline\<close>

lemma price_asc_pos:
  "js_pos (price_asc a b) \<longleftrightarrow>
     (price a = 0 \<and> price b \<noteq> 0) \<or> (price a \<noteq> 0 \<and> price b \<noteq> 0 \<and> price b < price a)"
  by (simp add: price_asc_def price_or_inf_def js_sub_def js_pos_def)

lemma js_sort_price_sorted:
  "sorted_wrt (\<lambda>a b. \<not> js_pos (price_asc a b)) (js_sort price_asc xs)"
proof (rule js_sort_sorted)
  fix a b :: product assume "js_pos (price_asc a b)"
  then show "\<not> js_pos (price_asc b a)" unfolding price_asc_pos by auto
next
  fix a b :: product assume "\<not> js_pos (price_asc a b)"
  then show "\<not> js_pos (price_asc a b)" .
next
  fix a b c :: product
  assume "\<not> js_pos (price_asc a b)" "\<not> js_pos (price_asc b c)"
  then show "\<not> js_pos (price_asc a c)" unfolding price_asc_pos by auto
qed

lemma simpleAccessoryFilter_is_filter:
  "\<exists>P. \<forall>ps. simpleAccessoryFilter query ps = filter P ps"
proof (cases "isPrimaryQuery (toLowerCase query)")
  case True
  then show ?thesis
    by (intro exI [of _ keep_product]) (simp add: simpleAccessoryFilter_def)
next
  case False
  then show ?thesis
    by (intro exI [of _ "\<lambda>_. True"]) (simp add: simpleAccessoryFilter_def)
qed

lemma fallback_filter_sorted:
  assumes "sorted_wrt (\<lambda>a b. \<not> js_pos (price_asc a b)) its"
  shows "fst (fallback_filter e query (its, summ)) = simpleAccessoryFilter query its"
proof -
  obtain P where P: "\<And>ps. simpleAccessoryFilter query ps = filter P ps"
    using simpleAccessoryFilter_is_filter by blast
  have "sorted_wrt (\<lambda>a b. \<not> js_pos (price_asc a b)) (simpleAccessoryFilter query its)"
    unfolding P using assms by (rule sorted_wrt_filter)
  then have same: "js_sort price_asc (simpleAccessoryFilter query its) = simpleAccessoryFilter query its"
    by (rule js_sort_sorted_id)
  show ?thesis
    by (simp add: fallback_filter_def Let_def same split: option.split)
qed

lemma rank_and_verdict_failed:
  assumes "crsFailed (rankProducts (GEMINI_API_KEY e) (rank_response e) query
                        (take (min 20 (length its)) its))"
  shows "\<exists>summ ranked. rank_and_verdict e query its = (its, summ, ranked, True)"
  using assms by (simp add: rank_and_verdict_def Let_def)

lemma merged_positive: "p \<in> set (merged e query) \<Longrightarrow> 0 < price p"
proof -
  assume "p \<in> set (merged e query)"
  then have "p \<in> set (filter valid_item (fst (serp_step e query (direct_scrapers e query ([], [])))))"
    unfolding merged_def deduplicateProducts_def using dedup_filter_keys by blast
  then show ?thesis by (simp add: valid_item_def)
qed

lemma js_sort_price_ascending:
  assumes pos: "\<And>p. p \<in> set xs \<Longrightarrow> 0 < price p"
  shows "sorted_wrt (\<lambda>a b. price a \<le> price b) (js_sort price_asc xs)"
proof (rule sorted_wrt_mono_rel [OF _ js_sort_price_sorted])
  fix a b
  assume a: "a \<in> set (js_sort price_asc xs)" and b: "b \<in> set (js_sort price_asc xs)"
    and le: "\<not> js_pos (price_asc a b)"
  from a b have "0 < price a" "0 < price b" using pos by (simp_all add: set_js_sort)
  with le show "price a \<le> price b" unfolding price_asc_pos by simp
qed

text \<open>
  C6. Whenever the call to \<open>rankProducts\<close> on the top slice reports failure, the result
  has \<open>rankedByAI = false\<close> and its items are the accessory filter applied to the merged
  list sorted by the price comparator; that sorted list is a rearrangement of the merged
  list in ascending order of price, and so are the items (no composite reordering).
\<close>

theorem scoring_failure_gives_filtered_price_order:
  assumes "crsFailed (rankProducts (GEMINI_API_KEY e) (rank_response e) query
             (take (min 20 (length (js_sort price_asc (merged e query))))
                (js_sort price_asc (merged e query))))"
  shows "rankedByAI (metadata (getProductResults e query)) = False
         \<and> items (getProductResults e query)
             = simpleAccessoryFilter query (js_sort price_asc (merged e query))
         \<and> sorted_wrt (\<lambda>a b. price a \<le> price b) (js_sort price_asc (merged e query))
         \<and> mset (js_sort price_asc (merged e query)) = mset (merged e query)
         \<and> sorted_wrt (\<lambda>a b. price a \<le> price b) (items (getProductResults e query))"
proof -
  have asc: "sorted_wrt (\<lambda>a b. price a \<le> price b) (js_sort price_asc (merged e query))"
    by (rule js_sort_price_ascending) (rule merged_positive)
  obtain P where P: "\<And>ps. simpleAccessoryFilter query ps = filter P ps"
    using simpleAccessoryFilter_is_filter by blast
  have asc': "sorted_wrt (\<lambda>a b. price a \<le> price b)
                (simpleAccessoryFilter query (js_sort price_asc (merged e query)))"
    unfolding P using asc by (rule sorted_wrt_filter)
  have main: "rankedByAI (metadata (getProductResults e query)) = False
         \<and> items (getProductResults e query)
             = simpleAccessoryFilter query (js_sort price_asc (merged e query))"
  proof (cases "merged e query = []")
    case True
    have "simpleAccessoryFilter query [] = []"
      unfolding P by simp
    then show ?thesis
      using True by (simp add: getProductResults_def Let_def js_sort_def)
  next
    case False
    from rank_and_verdict_failed [OF assms] obtain summ ranked where
      rv: "rank_and_verdict e query (js_sort price_asc (merged e query))
             = (js_sort price_asc (merged e query), summ, ranked, True)"
      by blast
    obtain its2 summ2 where
      ff: "fallback_filter e query (js_sort price_asc (merged e query), summ) = (its2, summ2)"
      by (cases "fallback_filter e query (js_sort price_asc (merged e query), summ)")
    have "its2 = simpleAccessoryFilter query (js_sort price_asc (merged e query))"
      using fallback_filter_sorted [OF js_sort_price_sorted, of e query "merged e query" summ]
      unfolding ff by simp
    then show ?thesis
      using False by (simp add: getProductResults_def Let_def rv ff)
  qed
  from main asc' have "sorted_wrt (\<lambda>a b. price a \<le> price b) (items (getProductResults e query))"
    by simp
  with main asc show ?thesis by (simp add: mset_js_sort)
qed

theorem scoring_failure_gives_filtered_price_order_witness:
  "crsFailed (rankProducts (GEMINI_API_KEY example_env) (rank_response example_env)
       ''wireless mouse''
       (take (min 20 (length (js_sort price_asc (merged example_env ''wireless mouse''))))
          (js_sort price_asc (merged example_env ''wireless mouse''))))
   \<and> rankedByAI (metadata (getProductResults example_env ''wireless mouse'')) = False
   \<and> items (getProductResults example_env ''wireless mouse'')
       = simpleAccessoryFilter ''wireless mouse''
           (js_sort price_asc (merged example_env ''wireless mouse''))
   \<and> js_sort price_asc (merged example_env ''wireless mouse'')
       = [listing ''Mouse cable'' 5, listing ''Wireless Mouse'' 25]
   \<and> items (getProductResults example_env ''wireless mouse'') = [listing ''Wireless Mouse'' 25]"
proof -
  have failed: "crsFailed (rankProducts (GEMINI_API_KEY example_env) (rank_response example_env)
       ''wireless mouse''
       (take (min 20 (length (js_sort price_asc (merged example_env ''wireless mouse''))))
          (js_sort price_asc (merged example_env ''wireless mouse''))))"
    by (simp add: example_env_def rankProducts_def rank_attempt_def)
  note concl = scoring_failure_gives_filtered_price_order [OF failed]
  have m: "merged example_env ''wireless mouse''
             = [listing ''Wireless Mouse'' 25, listing ''Mouse cable'' 5]"
    by (simp add: merged_def example_env_def serp_step_def direct_scrapers_def direct_step_def
          valid_item_def deduplicateProducts_def dedup_key_def slice0_def trim_def is_space_def
          toLowerCase_def toLowerChar_def listing_def Let_def)
  have srt: "js_sort price_asc (merged example_env ''wireless mouse'')
               = [listing ''Mouse cable'' 5, listing ''Wireless Mouse'' 25]"
    unfolding m
    by (simp add: js_sort_def price_asc_def price_or_inf_def js_sub_def js_pos_def listing_def)
  have flt: "simpleAccessoryFilter ''wireless mouse''
               [listing ''Mouse cable'' 5, listing ''Wireless Mouse'' 25]
             = [listing ''Wireless Mouse'' 25]"
    by (simp add: simpleAccessoryFilter_def isPrimaryQuery_def keep_product_def
          filter_accessory_title_def toLowerCase_def toLowerChar_def listing_def Let_def)
  from concl have "items (getProductResults example_env ''wireless mouse'')
                     = [listing ''Wireless Mouse'' 25]"
    unfolding srt flt by blast
  with failed concl srt show ?thesis by blast
qed

subsection \<open>The clock does not reach the items or the summary\<close>

lemma fallback_text_cong:
  assumes "toLocaleString e = toLocaleString e'" and "String_num e = String_num e'"
  shows "fallback_text e best products note = fallback_text e' best products note"
  unfolding fallback_text_def assms ..

lemma fallback_text_clock [simp]:
  "fallback_text (e\<lparr>now_start := t0, now_end := t1\<rparr>) best products note
     = fallback_text e best products note"
  by (rule fallback_text_cong) simp_all

lemma generateFallbackSummary_clock [simp]:
  "generateFallbackSummary (e\<lparr>now_start := t0, now_end := t1\<rparr>) products note
     = generateFallbackSummary e products note"
  by (simp add: generateFallbackSummary_def split: list.split)

lemma verdict_attempt_clock [simp]:
  "verdict_attempt (e\<lparr>now_start := t0, now_end := t1\<rparr>) products note r
     = verdict_attempt e products note r"
  by (cases r) (simp_all add: Let_def split: option.split)

lemma aiVerdict_clock [simp]:
  "aiVerdict (e\<lparr>now_start := t0, now_end := t1\<rparr>) products note = aiVerdict e products note"
  by (simp add: aiVerdict_def split: sum.split)

lemma direct_scrapers_clock [simp]:
  "direct_scrapers (e\<lparr>now_start := t0, now_end := t1\<rparr>) query acc = direct_scrapers e query acc"
  by (simp add: direct_scrapers_def)

lemma serp_step_clock [simp]:
  "serp_step (e\<lparr>now_start := t0, now_end := t1\<rparr>) query acc = serp_step e query acc"
  by (cases acc) (simp add: serp_step_def Let_def split: sum.split)

lemma merged_clock [simp]:
  "merged (e\<lparr>now_start := t0, now_end := t1\<rparr>) query = merged e query"
  by (simp add: merged_def)

lemma rank_and_verdict_clock [simp]:
  "rank_and_verdict (e\<lparr>now_start := t0, now_end := t1\<rparr>) query its = rank_and_verdict e query its"
  by (simp add: rank_and_verdict_def Let_def)

lemma fallback_filter_clock [simp]:
  "fallback_filter (e\<lparr>now_start := t0, now_end := t1\<rparr>) query st = fallback_filter e query st"
  by (cases st) (simp add: fallback_filter_def Let_def split: option.split)

lemma getSetupMessage_clock [simp]:
  "getSetupMessage (e\<lparr>now_start := t0, now_end := t1\<rparr>) = getSetupMessage e"
  by (simp add: getSetupMessage_def)

lemma getProductResults_clock:
  "items (getProductResults (e\<lparr>now_start := t0, now_end := t1\<rparr>) query)
     = items (getProductResults e query)
   \<and> summary (getProductResults (e\<lparr>now_start := t0, now_end := t1\<rparr>) query)
     = summary (getProductResults e query)"
  by (simp add: getProductResults_def Let_def split: prod.split)

text \<open>
  C9. Two runs on the same query that read the same configuration, the same adapter
  outputs, the same provider responses and the same number renderings, and differ only in
  what the clock shows, return the same items in the same order and the same summary. (The
  run is a function of what it reads, so the clock is the one thing that can differ; it
  reaches \<open>fetchTime\<close> only.)
\<close>

theorem two_runs_same_items_and_summary:
  "items (getProductResults (e\<lparr>now_start := s1, now_end := t1\<rparr>) query)
     = items (getProductResults (e\<lparr>now_start := s2, now_end := t2\<rparr>) query)
   \<and> summary (getProductResults (e\<lparr>now_start := s1, now_end := t1\<rparr>) query)
     = summary (getProductResults (e\<lparr>now_start := s2, now_end := t2\<rparr>) query)"
  by (simp add: getProductResults_clock)

end
